theory Spec2Isabelle
  imports Main "HOL-Library.Sublist" "HOL-Library.AList"
begin

section \<open>JavaScript strings\<close>

text \<open>
  A JavaScript string is modelled by its UTF-8 bytes, one \<^typ>\<open>char\<close> per byte. The
  string methods the frontend calls are \<open>toLowerCase\<close>, \<open>includes\<close>, \<open>trim\<close>,
  \<open>Array.prototype.join\<close> and the template literal that renders a number.
\<close>

definition toLowerCase_char :: "char \<Rightarrow> char" where
  "toLowerCase_char c =
     (let n = (of_char c :: nat) in if 65 \<le> n \<and> n \<le> 90 then char_of (n + 32) else c)"

text \<open>
  \<open>toLowerCase\<close> maps the letters A to Z to a to z and leaves every other ASCII byte
  alone. Bytes from 128 on (parts of a code point beyond ASCII) are left alone too; the
  patterns the frontend searches for are ASCII.
\<close>

definition toLowerCase :: "string \<Rightarrow> string" where
  "toLowerCase s = map toLowerCase_char s"

text \<open>\<open>s.includes(sub)\<close>: \<open>sub\<close> occurs in \<open>s\<close> as a contiguous run, at some position.\<close>

fun includes_str :: "string \<Rightarrow> string \<Rightarrow> bool" where
  "includes_str [] sub = (sub = [])"
| "includes_str (c # cs) sub = (prefix sub (c # cs) \<or> includes_str cs sub)"

text \<open>
  The code points that \<open>trim\<close> strips (ECMAScript WhiteSpace and LineTerminator), each as
  its UTF-8 byte sequence: U+0009 to U+000D, U+0020, U+00A0, U+1680, U+2000 to U+200A,
  U+2028, U+2029, U+202F, U+205F, U+3000 and U+FEFF.
\<close>

definition js_whitespace :: "string list" where
  "js_whitespace =
     [[CHR 0x09], [CHR 0x0A], [CHR 0x0B], [CHR 0x0C], [CHR 0x0D], [CHR 0x20],
      [CHR 0xC2, CHR 0xA0],
      [CHR 0xE1, CHR 0x9A, CHR 0x80],
      [CHR 0xE2, CHR 0x80, CHR 0x80], [CHR 0xE2, CHR 0x80, CHR 0x81],
      [CHR 0xE2, CHR 0x80, CHR 0x82], [CHR 0xE2, CHR 0x80, CHR 0x83],
      [CHR 0xE2, CHR 0x80, CHR 0x84], [CHR 0xE2, CHR 0x80, CHR 0x85],
      [CHR 0xE2, CHR 0x80, CHR 0x86], [CHR 0xE2, CHR 0x80, CHR 0x87],
      [CHR 0xE2, CHR 0x80, CHR 0x88], [CHR 0xE2, CHR 0x80, CHR 0x89],
      [CHR 0xE2, CHR 0x80, CHR 0x8A],
      [CHR 0xE2, CHR 0x80, CHR 0xA8], [CHR 0xE2, CHR 0x80, CHR 0xA9],
      [CHR 0xE2, CHR 0x80, CHR 0xAF],
      [CHR 0xE2, CHR 0x81, CHR 0x9F],
      [CHR 0xE3, CHR 0x80, CHR 0x80],
      [CHR 0xEF, CHR 0xBB, CHR 0xBF]]"

text \<open>The number of bytes of the white-space code point at the head of \<open>s\<close>; 0 if none.\<close>

definition ws_head :: "string list \<Rightarrow> string \<Rightarrow> nat" where
  "ws_head ws s = (case find (\<lambda>w. prefix w s) ws of Some w \<Rightarrow> length w | None \<Rightarrow> 0)"

text \<open>
  \<open>strip\<close> removes white-space code points from the front while there is one. Each round
  removes at least one byte, so it terminates.
\<close>

function strip :: "string list \<Rightarrow> string \<Rightarrow> string" where
  "strip ws s = (if ws_head ws s = 0 then s else strip ws (drop (ws_head ws s) s))"
  by pat_completeness auto
termination
proof (relation "measure (\<lambda>(ws, s). length s)")
  show "wf (measure (\<lambda>(ws, s). length s))"
    by simp
next
  fix ws :: "string list" and s :: string
  assume "ws_head ws s \<noteq> 0"
  then have "s \<noteq> []"
    by (auto simp: ws_head_def find_Some_iff split: option.splits)
  with \<open>ws_head ws s \<noteq> 0\<close>
  show "((ws, drop (ws_head ws s) s), (ws, s)) \<in> measure (\<lambda>(ws, s). length s)"
    by simp
qed

declare strip.simps [simp del]

definition trimStart :: "string \<Rightarrow> string" where
  "trimStart s = strip js_whitespace s"

text \<open>From the end: the same on the reversed string, with each byte sequence reversed.\<close>

definition trimEnd :: "string \<Rightarrow> string" where
  "trimEnd s = rev (strip (map rev js_whitespace) (rev s))"

definition trim :: "string \<Rightarrow> string" where
  "trim s = trimEnd (trimStart s)"

text \<open>\<open>xs.join(sep)\<close> on an array of strings.\<close>

fun join :: "string \<Rightarrow> string list \<Rightarrow> string" where
  "join sep [] = []"
| "join sep [x] = x"
| "join sep (x # y # ys) = x @ sep @ join sep (y # ys)"

text \<open>
  A count rendered by a template literal: its decimal digits. (JavaScript switches to
  exponent notation from \<open>10\<^sup>2\<^sup>1\<close> on; the counts here are numbers of emails.)
\<close>

definition digit_char :: "nat \<Rightarrow> char" where
  "digit_char d = char_of (48 + d)"

fun show_nat :: "nat \<Rightarrow> string" where
  "show_nat n = (if n < 10 then [digit_char n] else show_nat (n div 10) @ [digit_char (n mod 10)])"

declare show_nat.simps [simp del]

section \<open>Data model\<close>

text \<open>
  The records the frontend receives from the backend and keeps in its state. Only the
  fields the frontend reads are modelled. \<open>email.from\<close> and the two \<open>id\<close> fields are
  renamed (\<open>from\<close> and \<open>id\<close> are taken in Isabelle); an identifier is taken as the text a
  template literal renders it to.
\<close>

record action_item =
  task :: string
  deadline :: "string option"

record email =
  email_id :: string
  email_from :: string
  subject :: string
  body :: string
  timestamp :: string
  category :: "string option"
  actionItems :: "action_item list option"

record draft =
  draft_id :: string
  draft_to :: string
  draft_subject :: string
  draft_body :: string
  createdAt :: string

record chat_message =
  role :: string
  content :: string

text \<open>The prompts object: its entries in insertion order, as \<open>Object.entries\<close> lists them.\<close>

type_synonym prompt_set = "(string \<times> string) list"

section \<open>The API client (services/api.js)\<close>

text \<open>
  This is the module that App.jsx imports (\<open>./services/api\<close>). The sources also hold an
  earlier copy of it, with neither the timeout nor the interceptor, which nothing imports.
\<close>

text \<open>\<open>import.meta.env\<close>, as far as the module reads it.\<close>

record env =
  DEV :: bool
  VITE_API_URL :: "string option"

definition API_BASE :: "env \<Rightarrow> string" where
  "API_BASE e =
     (if DEV e then ''http://localhost:5001/api''
      else (case VITE_API_URL e of
              None \<Rightarrow> ''https://email-productivity-agent-z0qd.onrender.com/api''
            | Some u \<Rightarrow>
                if u = [] then ''https://email-productivity-agent-z0qd.onrender.com/api''
                else u))"

record axios_instance =
  baseURL :: string
  headers :: "(string \<times> string) list"
  timeout :: nat

text \<open>\<open>axios.create(config)\<close>: the instance keeps the configuration as its defaults.\<close>

definition api :: "env \<Rightarrow> axios_instance" where
  "api e =
     \<lparr>baseURL = API_BASE e,
      headers = [(''Content-Type'', ''application/json'')],
      timeout = 60000\<rparr>"

datatype http_method = GET | POST | PUT | DELETE

text \<open>The request bodies the client builds: the object literals of the source.\<close>

datatype payload =
    NoData
  | ChatData email string string
  | DraftData email
  | PromptsData prompt_set

record request =
  req_method :: http_method
  req_baseURL :: string
  req_url :: string
  req_headers :: "(string \<times> string) list"
  req_timeout :: nat
  req_data :: payload

text \<open>
  A request made through an instance carries the instance's defaults (none of the calls
  below passes a configuration of its own).
\<close>

definition axios_request :: "axios_instance \<Rightarrow> http_method \<Rightarrow> string \<Rightarrow> payload \<Rightarrow> request" where
  "axios_request inst m u d =
     \<lparr>req_method = m, req_baseURL = baseURL inst, req_url = u,
      req_headers = headers inst, req_timeout = timeout inst, req_data = d\<rparr>"

definition loadMockEmails :: "env \<Rightarrow> request" where
  "loadMockEmails e = axios_request (api e) POST ''/emails/load-mock'' NoData"

text \<open>\<open>maxResults\<close> has the default 20 when the argument is left out.\<close>

definition fetchEmails :: "env \<Rightarrow> nat option \<Rightarrow> request" where
  "fetchEmails e maxResults =
     axios_request (api e) GET
       (''/emails/fetch?max_results='' @ show_nat (case maxResults of None \<Rightarrow> 20 | Some n \<Rightarrow> n))
       NoData"

definition processEmails :: "env \<Rightarrow> request" where
  "processEmails e = axios_request (api e) POST ''/emails/process'' NoData"

definition getEmails :: "env \<Rightarrow> request" where
  "getEmails e = axios_request (api e) GET ''/emails'' NoData"

definition chatWithAgent :: "env \<Rightarrow> email \<Rightarrow> string \<Rightarrow> string \<Rightarrow> request" where
  "chatWithAgent e em query history =
     axios_request (api e) POST ''/chat'' (ChatData em query history)"

definition generateDraft_api :: "env \<Rightarrow> email \<Rightarrow> request" where
  "generateDraft_api e em = axios_request (api e) POST ''/draft/generate'' (DraftData em)"

definition getDrafts :: "env \<Rightarrow> request" where
  "getDrafts e = axios_request (api e) GET ''/drafts'' NoData"

definition deleteDraft :: "env \<Rightarrow> string \<Rightarrow> request" where
  "deleteDraft e draftId = axios_request (api e) DELETE (''/drafts/'' @ draftId) NoData"

definition getPrompts :: "env \<Rightarrow> request" where
  "getPrompts e = axios_request (api e) GET ''/prompts'' NoData"

definition updatePrompts :: "env \<Rightarrow> prompt_set \<Rightarrow> request" where
  "updatePrompts e ps = axios_request (api e) PUT ''/prompts'' (PromptsData ps)"

text \<open>
  The module's named exports: App.jsx imports them as the namespace \<open>api\<close> and calls
  \<open>api.getEmails()\<close> and so on. A value of \<open>api_call\<close> is one such call with its arguments;
  \<open>perform\<close> is the request it makes. These ten are all the exports there are.
\<close>

datatype api_call =
    LoadMockEmails
  | FetchEmails "nat option"
  | ProcessEmails
  | GetEmails
  | ChatWithAgent email string string
  | GenerateDraft email
  | GetDrafts
  | DeleteDraft string
  | GetPrompts
  | UpdatePrompts prompt_set

fun perform :: "env \<Rightarrow> api_call \<Rightarrow> request" where
  "perform e LoadMockEmails = loadMockEmails e"
| "perform e (FetchEmails maxResults) = fetchEmails e maxResults"
| "perform e ProcessEmails = processEmails e"
| "perform e GetEmails = getEmails e"
| "perform e (ChatWithAgent em query history) = chatWithAgent e em query history"
| "perform e (GenerateDraft em) = generateDraft_api e em"
| "perform e GetDrafts = getDrafts e"
| "perform e (DeleteDraft draftId) = deleteDraft e draftId"
| "perform e GetPrompts = getPrompts e"
| "perform e (UpdatePrompts ps) = updatePrompts e ps"

text \<open>
  The error object of a rejected request, as far as the code reads it: \<open>error.code\<close>,
  \<open>error.message\<close> and \<open>error.response?.data?.error\<close>.
\<close>

record js_error =
  error_code :: "string option"
  error_message :: string
  error_response_error :: "string option"

text \<open>A settled promise: \<open>Inl\<close> the rejection, \<open>Inr\<close> the value it was fulfilled with.\<close>

type_synonym 'a settled = "js_error + 'a"

text \<open>
  The response interceptor. A response passes unchanged. An error is logged, a timeout
  (\<open>ECONNABORTED\<close>) gets a second log line, and the promise is rejected with the same error.
  The result is the lines written to \<open>console.error\<close> and the settled promise the caller sees.
\<close>

definition interceptor_fulfilled :: "'a \<Rightarrow> string list \<times> 'a settled" where
  "interceptor_fulfilled response = ([], Inr response)"

definition interceptor_rejected :: "js_error \<Rightarrow> string list \<times> 'a settled" where
  "interceptor_rejected error =
     ([''API Error:''] @
      (if error_code error = Some ''ECONNABORTED''
       then [''Request timeout - backend may be processing''] else []),
      Inl error)"

definition response_interceptor :: "'a settled \<Rightarrow> string list \<times> 'a settled" where
  "response_interceptor r =
     (case r of Inr response \<Rightarrow> interceptor_fulfilled response
              | Inl error \<Rightarrow> interceptor_rejected error)"

section \<open>The user interface (App.jsx)\<close>

record status_alert =
  status_message :: string
  status_type :: string

text \<open>The ten \<open>useState\<close> variables of the component.\<close>

record app_state =
  emails :: "email list"
  selectedEmail :: "email option"
  prompts :: prompt_set
  chatMessages :: "chat_message list"
  chatInput :: string
  drafts :: "draft list"
  activeTab :: string
  loading :: bool
  editingPrompt :: "string option"
  status :: status_alert

definition initial_state :: app_state where
  "initial_state =
     \<lparr>emails = [], selectedEmail = None, prompts = [], chatMessages = [], chatInput = [],
      drafts = [], activeTab = ''inbox'', loading = False, editingPrompt = None,
      status = \<lparr>status_message = [], status_type = []\<rparr>\<rparr>"

text \<open>
  What a handler does besides updating the state: the API calls it makes, the lines it
  writes to \<open>console.error\<close>, the timers it starts, and a rejected promise nobody handles.
\<close>

datatype effect =
    Request api_call
  | ConsoleError string
  | SetTimeout nat
  | UnhandledRejection js_error

type_synonym action = "app_state \<Rightarrow> app_state \<times> effect list"

text \<open>Statements in sequence: the state is threaded through, the effects accumulate.\<close>

fun run_actions :: "action list \<Rightarrow> action" where
  "run_actions [] s = (s, [])"
| "run_actions (a # as) s =
     (case a s of (s1, e1) \<Rightarrow> (case run_actions as s1 of (s2, e2) \<Rightarrow> (s2, e1 @ e2)))"

definition setEmails :: "email list \<Rightarrow> action" where
  "setEmails v s = (s\<lparr>emails := v\<rparr>, [])"

definition setSelectedEmail :: "email option \<Rightarrow> action" where
  "setSelectedEmail v s = (s\<lparr>selectedEmail := v\<rparr>, [])"

definition setPrompts :: "prompt_set \<Rightarrow> action" where
  "setPrompts v s = (s\<lparr>prompts := v\<rparr>, [])"

definition setChatMessages :: "chat_message list \<Rightarrow> action" where
  "setChatMessages v s = (s\<lparr>chatMessages := v\<rparr>, [])"

text \<open>The functional form \<open>setChatMessages(prev => ...)\<close>: applied to the state of that moment.\<close>

definition setChatMessages_prev :: "(chat_message list \<Rightarrow> chat_message list) \<Rightarrow> action" where
  "setChatMessages_prev f s = (s\<lparr>chatMessages := f (chatMessages s)\<rparr>, [])"

definition setChatInput :: "string \<Rightarrow> action" where
  "setChatInput v s = (s\<lparr>chatInput := v\<rparr>, [])"

definition setDrafts :: "draft list \<Rightarrow> action" where
  "setDrafts v s = (s\<lparr>drafts := v\<rparr>, [])"

definition setActiveTab :: "string \<Rightarrow> action" where
  "setActiveTab v s = (s\<lparr>activeTab := v\<rparr>, [])"

definition setLoading :: "bool \<Rightarrow> action" where
  "setLoading v s = (s\<lparr>loading := v\<rparr>, [])"

definition setEditingPrompt :: "string option \<Rightarrow> action" where
  "setEditingPrompt v s = (s\<lparr>editingPrompt := v\<rparr>, [])"

definition setStatus :: "status_alert \<Rightarrow> action" where
  "setStatus v s = (s\<lparr>status := v\<rparr>, [])"

definition console_error :: "string \<Rightarrow> action" where
  "console_error line s = (s, [ConsoleError line])"

definition unhandled :: "js_error \<Rightarrow> action" where
  "unhandled error s = (s, [UnhandledRejection error])"

text \<open>
  \<open>showStatus\<close> sets the alert and starts the timer that clears it after 5000 ms; the
  timer's callback is the event \<open>StatusTimeout\<close> below.
\<close>

definition showStatus :: "string \<Rightarrow> string \<Rightarrow> action" where
  "showStatus message ty =
     run_actions [setStatus \<lparr>status_message = message, status_type = ty\<rparr>,
                  (\<lambda>s. (s, [SetTimeout 5000]))]"

text \<open>
  \<open>await api.f(...)\<close>: the call is made, the raw outcome of the request goes through the
  response interceptor (whose log lines are written), and the rest of the handler continues
  with what the interceptor hands on.
\<close>

definition api_await :: "api_call \<Rightarrow> 'a settled \<Rightarrow> ('a settled \<Rightarrow> action list) \<Rightarrow> action list" where
  "api_await c raw k =
     [\<lambda>s. (s, [Request c])] @
     map console_error (fst (response_interceptor raw)) @
     k (snd (response_interceptor raw))"

text \<open>\<open>a || b\<close> on an optional string: \<open>b\<close> when \<open>a\<close> is missing or empty.\<close>

definition or_else :: "string option \<Rightarrow> string \<Rightarrow> string" where
  "or_else a b = (case a of None \<Rightarrow> b | Some x \<Rightarrow> if x = [] then b else x)"

text \<open>The two emoji of the status messages, U+2705 and U+274C, in UTF-8.\<close>

definition check_mark :: string where
  "check_mark = [CHR 0xE2, CHR 0x9C, CHR 0x85]"

definition cross_mark :: string where
  "cross_mark = [CHR 0xE2, CHR 0x9D, CHR 0x8C]"

text \<open>
  An async handler is a function of the raw outcomes of the requests it awaits, in the order
  it awaits them. An outcome is only looked at on the path that makes its request.
\<close>

definition loadEmails :: "email list settled \<Rightarrow> action" where
  "loadEmails raw =
     run_actions (api_await GetEmails raw (\<lambda>r. case r of
         Inr es \<Rightarrow> [setEmails es]
       | Inl error \<Rightarrow> [console_error ''Error loading emails:'']))"

definition loadPrompts :: "prompt_set settled \<Rightarrow> action" where
  "loadPrompts raw =
     run_actions (api_await GetPrompts raw (\<lambda>r. case r of
         Inr ps \<Rightarrow> [setPrompts ps]
       | Inl error \<Rightarrow> [console_error ''Error loading prompts:'']))"

definition loadDrafts :: "draft list settled \<Rightarrow> action" where
  "loadDrafts raw =
     run_actions (api_await GetDrafts raw (\<lambda>r. case r of
         Inr ds \<Rightarrow> [setDrafts ds]
       | Inl error \<Rightarrow> [console_error ''Error loading drafts:'']))"

definition loadMockInbox :: "string option settled \<Rightarrow> email list settled \<Rightarrow> action" where
  "loadMockInbox raw1 raw2 =
     run_actions
       ([setLoading True,
         showStatus ''Loading mock inbox with 20 sample emails...'' ''loading''] @
        api_await LoadMockEmails raw1 (\<lambda>r. case r of
            Inr message \<Rightarrow>
              [loadEmails raw2,
               showStatus (check_mark @ '' '' @ or_else message ''Mock inbox loaded successfully!'')
                 ''success'']
          | Inl error \<Rightarrow>
              [showStatus (cross_mark @ '' Error loading mock inbox: '' @ error_message error)
                 ''error'']) @
        [setLoading False])"

definition fetchNewEmails :: \<open>unit settled \<Rightarrow> email list settled \<Rightarrow> action\<close> where
  \<open>fetchNewEmails raw1 raw2 =
     run_actions
       ([setLoading True,
         showStatus ''Fetching emails from Gmail...'' ''loading''] @
        api_await (FetchEmails (Some 20)) raw1 (\<lambda>r. case r of
            Inr _ \<Rightarrow>
              [loadEmails raw2,
               showStatus (check_mark @ '' Emails fetched successfully from Gmail!'') ''success'']
          | Inl error \<Rightarrow>
              [console_error (error_message error),
               showStatus
                 ''Gmail not configured. Please use "Load Mock Inbox" or set up Gmail credentials.''
                 ''error'']) @
        [setLoading False])\<close>

text \<open>The body of the response to \<open>POST /emails/process\<close>, as far as the frontend reads it.\<close>

record process_response =
  processed :: nat
  total :: nat

definition processAllEmails :: "process_response settled \<Rightarrow> email list settled \<Rightarrow> action" where
  "processAllEmails raw1 raw2 =
     run_actions
       ([setLoading True,
         showStatus ''Processing emails with AI... This may take a minute.'' ''loading''] @
        api_await ProcessEmails raw1 (\<lambda>r. case r of
            Inr d \<Rightarrow>
              [loadEmails raw2,
               showStatus
                 (check_mark @ '' Processed '' @ show_nat (processed d) @ ''/'' @
                  show_nat (total d) @ '' emails successfully!'')
                 ''success'']
          | Inl error \<Rightarrow>
              [showStatus
                 (cross_mark @ '' Error: '' @
                  or_else (error_response_error error) (error_message error))
                 ''error'']) @
        [setLoading False])"

subsection \<open>Chat\<close>

text \<open>The history string: one line per turn, \<open>role: content\<close>, joined by newlines.\<close>

definition history_line :: "chat_message \<Rightarrow> string" where
  "history_line m = role m @ '': '' @ content m"

definition flatten_history :: "chat_message list \<Rightarrow> string" where
  "flatten_history ms = join [CHR 0x0A] (map history_line ms)"

text \<open>
  \<open>handleChatSubmit\<close> up to its \<open>await\<close>. \<open>chatMessages\<close>, \<open>chatInput\<close> and
  \<open>selectedEmail\<close> are the values of the render in which the handler was created, that is
  of the state \<open>s\<close> the event meets. The request is made before the handler suspends.
\<close>

definition handleChatSubmit_begin :: action where
  "handleChatSubmit_begin s =
     (if trim (chatInput s) = [] then (s, [])
      else (case selectedEmail s of
              None \<Rightarrow> (s, [])
            | Some em \<Rightarrow>
                run_actions
                  [setChatMessages (chatMessages s @ [\<lparr>role = ''user'', content = chatInput s\<rparr>]),
                   setChatInput [],
                   setLoading True,
                   (\<lambda>s'. (s', [Request (ChatWithAgent em (chatInput s)
                                         (flatten_history (chatMessages s)))]))]
                  s))"

text \<open>
  The rest of \<open>handleChatSubmit\<close>, run when the request settles: \<open>try\<close> continues or
  \<open>catch\<close> takes over, then \<open>finally\<close>. It runs on the state of that moment, which other
  events may have changed since the request was made.
\<close>

definition handleChatSubmit_settle :: "string settled \<Rightarrow> action" where
  "handleChatSubmit_settle raw =
     run_actions
       (map console_error (fst (response_interceptor raw)) @
        (case snd (response_interceptor raw) of
           Inr text \<Rightarrow>
             [setChatMessages_prev (\<lambda>prev. prev @ [\<lparr>role = ''assistant'', content = text\<rparr>])]
         | Inl error \<Rightarrow>
             [console_error ''Chat error:'',
              setChatMessages_prev (\<lambda>prev. prev @
                [\<lparr>role = ''assistant'',
                  content = ''Sorry, I encountered an error processing your request.''\<rparr>])]) @
        [setLoading False])"

text \<open>The whole handler when no other event comes in between.\<close>

definition handleChatSubmit :: "string settled \<Rightarrow> action" where
  "handleChatSubmit raw s =
     (if trim (chatInput s) = [] \<or> selectedEmail s = None then (s, [])
      else run_actions [handleChatSubmit_begin, handleChatSubmit_settle raw] s)"

text \<open>The Send button's \<open>disabled\<close> attribute.\<close>

definition send_disabled :: "app_state \<Rightarrow> bool" where
  "send_disabled s = (loading s \<or> trim (chatInput s) = [])"

subsection \<open>Drafts and prompts\<close>

definition generateDraft :: "email \<Rightarrow> unit settled \<Rightarrow> draft list settled \<Rightarrow> action" where
  "generateDraft em raw1 raw2 =
     run_actions
       ([setLoading True,
         showStatus ''Generating draft reply with AI...'' ''loading''] @
        api_await (GenerateDraft em) raw1 (\<lambda>r. case r of
            Inr _ \<Rightarrow>
              [loadDrafts raw2,
               setActiveTab ''drafts'',
               showStatus (check_mark @ '' Draft generated successfully! Check Drafts tab.'')
                 ''success'']
          | Inl error \<Rightarrow>
              [showStatus (cross_mark @ '' Error generating draft: '' @ error_message error)
                 ''error'']) @
        [setLoading False])"

definition savePrompts :: "unit settled \<Rightarrow> action" where
  "savePrompts raw s =
     run_actions
       ([setLoading True] @
        api_await (UpdatePrompts (prompts s)) raw (\<lambda>r. case r of
            Inr _ \<Rightarrow>
              [setEditingPrompt None,
               showStatus (check_mark @ '' Prompts saved! Process emails again to see changes.'')
                 ''success'']
          | Inl error \<Rightarrow>
              [showStatus (cross_mark @ '' Error saving prompts: '' @ error_message error)
                 ''error'']) @
        [setLoading False])
       s"

text \<open>
  The delete button of a draft: \<open>api.deleteDraft(draft.id); loadDrafts();\<close>. Neither call
  is awaited; a rejection of the first is handled by nobody.
\<close>

definition onClick_deleteDraft :: "draft \<Rightarrow> unit settled \<Rightarrow> draft list settled \<Rightarrow> action" where
  "onClick_deleteDraft d raw1 raw2 =
     run_actions
       (api_await (DeleteDraft (draft_id d)) raw1 (\<lambda>r. []) @
        [loadDrafts raw2] @
        (case snd (response_interceptor raw1) of
           Inr _ \<Rightarrow> []
         | Inl error \<Rightarrow> [unhandled error]))"

subsection \<open>Inbox\<close>

text \<open>Clicking an email of the inbox list.\<close>

definition onClick_email :: "email \<Rightarrow> action" where
  "onClick_email em = run_actions [setSelectedEmail (Some em), setChatMessages []]"

text \<open>
  The category badge of an inbox row: nothing when the category is missing or empty,
  otherwise a span with a colour class and the category as its text.
\<close>

record badge =
  className :: string
  badge_text :: string

definition badge_colour :: "string \<Rightarrow> string" where
  "badge_colour c =
     (if includes_str (toLowerCase c) ''important'' then ''bg-red-100 text-red-800''
      else if includes_str (toLowerCase c) ''to-do'' \<or> includes_str (toLowerCase c) ''todo''
        then ''bg-yellow-100 text-yellow-800''
      else if includes_str (toLowerCase c) ''newsletter'' then ''bg-blue-100 text-blue-800''
      else if includes_str (toLowerCase c) ''spam'' then ''bg-gray-100 text-gray-800''
      else ''bg-purple-100 text-purple-800'')"

definition category_badge :: "email \<Rightarrow> badge option" where
  "category_badge em =
     (case category em of
        None \<Rightarrow> None
      | Some c \<Rightarrow>
          if c = [] then None
          else Some \<lparr>className = ''px-2 py-1 rounded text-xs whitespace-nowrap ml-2 '' @ badge_colour c,
                      badge_text = c\<rparr>)"

subsection \<open>Events\<close>

text \<open>
  What can happen to the component: the mount effect, the user's clicks and keystrokes, a
  chat request settling and the status timer firing. An event that starts requests carries
  their raw outcomes. The chat request is the one exception: it settles in an event of its
  own, so that anything may happen while it is in flight.
\<close>

datatype event =
    Mount "prompt_set settled" "email list settled" "draft list settled"
  | ClickLoadMockInbox "string option settled" "email list settled"
  | ClickFetchRealGmail "unit settled" "email list settled"
  | ClickProcessAll "process_response settled" "email list settled"
  | ClickTab string
  | ClickEmail email
  | ClickGenerateDraft "unit settled" "draft list settled"
  | ChangeChatInput string
  | KeyPressChatInput string bool
  | ClickSend
  | ChatSettled "string settled"
  | ClickDeleteDraft draft "unit settled" "draft list settled"
  | ClickEditPrompt string
  | ChangePrompt string string
  | ClickSavePrompts "unit settled"
  | StatusTimeout

text \<open>A click on a disabled button does nothing.\<close>

definition button :: "bool \<Rightarrow> action \<Rightarrow> action" where
  "button disabled onClick s = (if disabled then (s, []) else onClick s)"

text \<open>
  One event. The \<open>disabled\<close> attributes are modelled; that an element is only rendered on
  its tab is not, which leaves more behaviours in the model than the page has.
\<close>

fun step :: "event \<Rightarrow> action" where
  "step (Mount rp re rd) s = run_actions [loadPrompts rp, loadEmails re, loadDrafts rd] s"
| "step (ClickLoadMockInbox r1 r2) s = button (loading s) (loadMockInbox r1 r2) s"
| "step (ClickFetchRealGmail r1 r2) s = button (loading s) (fetchNewEmails r1 r2) s"
| "step (ClickProcessAll r1 r2) s =
     button (loading s \<or> length (emails s) = 0) (processAllEmails r1 r2) s"
| "step (ClickTab key) s = setActiveTab key s"
| "step (ClickEmail em) s = onClick_email em s"
| "step (ClickGenerateDraft r1 r2) s =
     (case selectedEmail s of
        None \<Rightarrow> (s, [])
      | Some em \<Rightarrow> button (loading s) (generateDraft em r1 r2) s)"
| "step (ChangeChatInput v) s = setChatInput v s"
| "step (KeyPressChatInput key shiftKey) s =
     (if key = ''Enter'' \<and> \<not> shiftKey then handleChatSubmit_begin s else (s, []))"
| "step ClickSend s = button (send_disabled s) handleChatSubmit_begin s"
| "step (ChatSettled r) s = handleChatSubmit_settle r s"
| "step (ClickDeleteDraft d r1 r2) s = onClick_deleteDraft d r1 r2 s"
| "step (ClickEditPrompt key) s = setEditingPrompt (Some key) s"
| "step (ChangePrompt key v) s = setPrompts (AList.update key v (prompts s)) s"
| "step (ClickSavePrompts r) s = savePrompts r s"
| "step StatusTimeout s = setStatus \<lparr>status_message = [], status_type = []\<rparr> s"

text \<open>A sequence of events, from a state.\<close>

fun run :: "event list \<Rightarrow> action" where
  "run [] s = (s, [])"
| "run (ev # evs) s =
     (case step ev s of (s1, e1) \<Rightarrow> (case run evs s1 of (s2, e2) \<Rightarrow> (s2, e1 @ e2)))"

section \<open>The backend behind the API\<close>

text \<open>
  Modelled from the spec: the Prompt Store's \<open>update\<close> (section 4.1 of the specification).
  It is part of the backend (backend/app.py, backend/database.py), which is not among the
  source files; the frontend reaches it through \<open>PUT /prompts\<close>. The four recognized names
  are the specification's.
\<close>

definition recognized_keys :: "string list" where
  "recognized_keys = [''categorize'', ''extractActions'', ''draftReply'', ''chat'']"

datatype store_error = ValidationError

definition valid_entry :: "string \<times> string \<Rightarrow> bool" where
  "valid_entry kv = (fst kv \<in> set recognized_keys \<and> trim (snd kv) \<noteq> [])"

text \<open>
  Modelled from the spec: merging the supplied keys into the current set, one entry after
  the other (a key supplied twice keeps its last value, as in a parsed JSON object).
\<close>

definition merge_prompts :: "prompt_set \<Rightarrow> prompt_set \<Rightarrow> prompt_set" where
  "merge_prompts partial current = fold (\<lambda>kv. AList.update (fst kv) (snd kv)) partial current"

text \<open>
  Modelled from the spec: \<open>update(partial mapping)\<close> on the stored set. The result is what
  the caller gets and the set that is stored afterwards.
\<close>

definition store_update :: "prompt_set \<Rightarrow> prompt_set \<Rightarrow> (store_error + prompt_set) \<times> prompt_set" where
  "store_update partial current =
     (if list_all valid_entry partial
      then (Inr (merge_prompts partial current), merge_prompts partial current)
      else (Inl ValidationError, current))"

text \<open>
  Modelled from the spec: the Annotation Pipeline's batch contract (section 4.3), also part
  of the absent backend; the frontend reaches it through \<open>POST /emails/process\<close>. The
  per-email steps (the two Model Gateway calls, parsing, the write-back) are the parameter
  \<open>annotate\<close>, which is \<open>Inl\<close> when a Gateway call for that email fails. A failed email
  is kept as it was and counted as attempted only.
\<close>

datatype gateway_error = UpstreamTimeout | UpstreamUnavailable | UpstreamError string

record summary =
  attempted :: nat
  succeeded :: nat

fun runAnnotationPipeline ::
  "(email \<Rightarrow> gateway_error + email) \<Rightarrow> email list \<Rightarrow> email list \<times> summary" where
  "runAnnotationPipeline annotate [] = ([], \<lparr>attempted = 0, succeeded = 0\<rparr>)"
| "runAnnotationPipeline annotate (em # ems) =
     (case runAnnotationPipeline annotate ems of (out, sm) \<Rightarrow>
        (case annotate em of
           Inr em' \<Rightarrow>
             (em' # out, \<lparr>attempted = Suc (attempted sm), succeeded = Suc (succeeded sm)\<rparr>)
         | Inl failure \<Rightarrow>
             (em # out, \<lparr>attempted = Suc (attempted sm), succeeded = succeeded sm\<rparr>)))"

text \<open>
  Modelled from the spec: the summary as the body of the response. The names of the two
  fields are the ones the frontend reads, \<open>processed\<close> for the emails that succeeded and
  \<open>total\<close> for the emails attempted.
\<close>

definition summary_response :: "summary \<Rightarrow> process_response" where
  "summary_response sm = \<lparr>processed = succeeded sm, total = attempted sm\<rparr>"

section \<open>Notions of the specification\<close>

text \<open>
  A case-insensitive substring test: some contiguous part of \<open>c\<close> is \<open>pat\<close> up to the case
  of its letters (\<open>pat\<close> is given in lower case).
\<close>

definition occurs_ignoring_case :: "string \<Rightarrow> string \<Rightarrow> bool" where
  "occurs_ignoring_case pat c = (\<exists>pre mid post. c = pre @ mid @ post \<and> toLowerCase mid = pat)"

text \<open>
  The visual bucket of a category, in the specification's words: the tests in the order
  important, to-do or todo, newsletter, spam, and the neutral bucket otherwise.
\<close>

datatype bucket = Important | ToDo | Newsletter | Spam | Other

definition bucket_of :: "string \<Rightarrow> bucket" where
  "bucket_of c =
     (if occurs_ignoring_case ''important'' c then Important
      else if occurs_ignoring_case ''to-do'' c \<or> occurs_ignoring_case ''todo'' c then ToDo
      else if occurs_ignoring_case ''newsletter'' c then Newsletter
      else if occurs_ignoring_case ''spam'' c then Spam
      else Other)"

fun bucket_colour :: "bucket \<Rightarrow> string" where
  "bucket_colour Important = ''bg-red-100 text-red-800''"
| "bucket_colour ToDo = ''bg-yellow-100 text-yellow-800''"
| "bucket_colour Newsletter = ''bg-blue-100 text-blue-800''"
| "bucket_colour Spam = ''bg-gray-100 text-gray-800''"
| "bucket_colour Other = ''bg-purple-100 text-purple-800''"

text \<open>The assistant's turn that a settled chat request puts into the transcript.\<close>

definition reply_turn :: "string settled \<Rightarrow> chat_message" where
  "reply_turn r =
     (case r of
        Inr text \<Rightarrow> \<lparr>role = ''assistant'', content = text\<rparr>
      | Inl error \<Rightarrow>
          \<lparr>role = ''assistant'',
            content = ''Sorry, I encountered an error processing your request.''\<rparr>)"

text \<open>The events that select an email.\<close>

fun is_selection :: "event \<Rightarrow> bool" where
  "is_selection (ClickEmail em) = True"
| "is_selection ev = False"

text \<open>The requests among the effects of a run.\<close>

fun requests :: "effect list \<Rightarrow> api_call list" where
  "requests [] = []"
| "requests (Request c # es) = c # requests es"
| "requests (x # es) = requests es"

text \<open>
  The endpoints of the backend that the client addresses: eight fixed routes, the fetch
  route with its query string, and the route of one draft.
\<close>

definition is_client_endpoint :: "request \<Rightarrow> bool" where
  "is_client_endpoint r =
     ((req_method r, req_url r) \<in> set
        [(POST, ''/emails/load-mock''), (POST, ''/emails/process''), (GET, ''/emails''),
         (POST, ''/chat''), (POST, ''/draft/generate''), (GET, ''/drafts''),
         (GET, ''/prompts''), (PUT, ''/prompts'')]
      \<or> (req_method r = GET \<and> prefix ''/emails/fetch?max_results='' (req_url r))
      \<or> (req_method r = DELETE \<and> prefix ''/drafts/'' (req_url r)))"

text \<open>An action that leaves the transcript as it is.\<close>

definition keeps_chat :: "action \<Rightarrow> bool" where
  "keeps_chat a = (\<forall>s. chatMessages (fst (a s)) = chatMessages s)"

text \<open>
  The list of drafts an event receives from \<open>GET /drafts\<close>, if it receives one: on mount,
  after a generation that succeeded, and after the click on a delete button.
\<close>

fun listed :: "event \<Rightarrow> draft list option" where
  "listed (Mount rp re (Inr ds)) = Some ds"
| "listed (ClickGenerateDraft (Inr u) (Inr ds)) = Some ds"
| "listed (ClickDeleteDraft d r (Inr ds)) = Some ds"
| "listed ev = None"

text \<open>An action that leaves the list of drafts as it is.\<close>

definition keeps_drafts :: "action \<Rightarrow> bool" where
  "keeps_drafts a = (\<forall>s. drafts (fst (a s)) = drafts s)"

section \<open>Sample data\<close>

definition demo_env :: env where
  "demo_env = \<lparr>DEV = True, VITE_API_URL = None\<rparr>"

definition demo_email :: email where
  "demo_email =
     \<lparr>email_id = ''1'', email_from = ''alice@example.com'', subject = ''Team Sync'',
      body = ''Can we meet Thursday?'', timestamp = ''2024-01-01T10:00:00'',
      category = Some ''My To-Do'', actionItems = None\<rparr>"

definition other_email :: email where
  "other_email =
     \<lparr>email_id = ''2'', email_from = ''news@example.com'', subject = ''Weekly Tech Digest'',
      body = ''This week in tech'', timestamp = ''2024-01-02T08:00:00'',
      category = None, actionItems = None\<rparr>"

definition demo_state :: app_state where
  "demo_state =
     initial_state\<lparr>emails := [demo_email, other_email], selectedEmail := Some demo_email,
       chatMessages := [\<lparr>role = ''user'', content = ''hi''\<rparr>,
                        \<lparr>role = ''assistant'', content = ''hello''\<rparr>],
       chatInput := ''Summarize''\<rparr>"

text \<open>The chat input holds a space, a tab and a no-break space.\<close>

definition blank_state :: app_state where
  "blank_state = demo_state\<lparr>chatInput := [CHR '' '', CHR 0x09, CHR 0xC2, CHR 0xA0]\<rparr>"

definition demo_timeout :: js_error where
  "demo_timeout =
     \<lparr>error_code = Some ''ECONNABORTED'', error_message = ''timeout of 60000ms exceeded'',
      error_response_error = None\<rparr>"

text \<open>
  The user submits a question about the first email on the chat tab, goes back to the inbox
  and clicks the second email while the request is in flight; then the request settles.
\<close>

definition reselect_in_flight :: "string settled \<Rightarrow> event list" where
  "reselect_in_flight r =
     [ClickTab ''chat'', KeyPressChatInput ''Enter'' False, ClickTab ''inbox'',
      ClickEmail other_email, ChatSettled r]"

text \<open>A Gateway that answers for the first email and times out for every other one.\<close>

definition demo_annotate :: "email \<Rightarrow> gateway_error + email" where
  "demo_annotate em =
     (if email_id em = ''1'' then Inr (em\<lparr>category := Some ''To-Do''\<rparr>)
      else Inl UpstreamTimeout)"

definition demo_prompts :: prompt_set where
  "demo_prompts =
     [(''categorize'', ''Categorize this email''), (''extractActions'', ''Extract the tasks''),
      (''draftReply'', ''Draft a polite reply''), (''chat'', ''Answer questions'')]"

section \<open>Sequencing and the string functions\<close>

lemmas setter_defs = setEmails_def setSelectedEmail_def setPrompts_def setChatMessages_def
  setChatMessages_prev_def setChatInput_def setDrafts_def setActiveTab_def setLoading_def
  setEditingPrompt_def setStatus_def console_error_def unhandled_def

lemmas api_defs = loadMockEmails_def fetchEmails_def processEmails_def getEmails_def
  chatWithAgent_def generateDraft_api_def getDrafts_def deleteDraft_def getPrompts_def
  updatePrompts_def axios_request_def

lemmas interceptor_defs = response_interceptor_def interceptor_fulfilled_def
  interceptor_rejected_def

lemma run_actions_append:
  "run_actions (as @ bs) s =
     (case run_actions as s of (s1, e1) \<Rightarrow>
        (case run_actions bs s1 of (s2, e2) \<Rightarrow> (s2, e1 @ e2)))"
  by (induction as arbitrary: s) (auto split: prod.splits)

lemma run_actions_console: "run_actions (map console_error ls) s = (s, map ConsoleError ls)"
  by (induction ls) (auto simp: console_error_def)

lemma run_actions_fst_Nil: "fst (run_actions [] s) = s"
  by simp

lemma run_actions_fst_Cons: "fst (run_actions (a # as) s) = fst (run_actions as (fst (a s)))"
  by (simp split: prod.splits)

lemma run_actions_fst_append:
  "fst (run_actions (as @ bs) s) = fst (run_actions bs (fst (run_actions as s)))"
  by (simp add: run_actions_append split: prod.splits)

lemma run_actions_fst_console: "fst (run_actions (map console_error ls) s) = s"
  by (simp add: run_actions_console)

lemmas run_fst = run_actions_fst_Nil run_actions_fst_Cons run_actions_fst_append
  run_actions_fst_console

lemma run_actions_snd_Nil: "snd (run_actions [] s) = []"
  by simp

lemma run_actions_snd_Cons:
  "snd (run_actions (a # as) s) = snd (a s) @ snd (run_actions as (fst (a s)))"
  by (simp split: prod.splits)

lemma run_actions_snd_append:
  "snd (run_actions (as @ bs) s) =
     snd (run_actions as s) @ snd (run_actions bs (fst (run_actions as s)))"
  by (simp add: run_actions_append split: prod.splits)

lemmas run_snd = run_actions_snd_Nil run_actions_snd_Cons run_actions_snd_append

lemma requests_append: "requests (xs @ ys) = requests xs @ requests ys"
  by (induction xs rule: requests.induct) auto

lemma requests_console: "requests (map ConsoleError ls) = []"
  by (induction ls) auto

lemma showStatus_eq:
  "showStatus m ty s = (s\<lparr>status := \<lparr>status_message = m, status_type = ty\<rparr>\<rparr>, [SetTimeout 5000])"
  by (simp add: showStatus_def setStatus_def)

lemma join_snoc: "xs \<noteq> [] \<Longrightarrow> join sep (xs @ [x]) = join sep xs @ sep @ x"
  by (induction sep xs rule: join.induct) auto

lemma join_snoc_neq: "x \<noteq> [] \<Longrightarrow> join sep (xs @ [x]) \<noteq> join sep xs"
  by (cases "xs = []") (auto simp: join_snoc)

text \<open>\<open>includes\<close> is the contiguous-sublist relation of the list library.\<close>

lemma includes_str_sublist: "includes_str s sub = sublist sub s"
  by (induction s) (auto simp: sublist_Cons_right)

text \<open>
  Lowering the case of the whole string and then looking for the lower-case pattern is a
  case-insensitive search.
\<close>

lemma occurs_ignoring_case_iff: "occurs_ignoring_case pat c = includes_str (toLowerCase c) pat"
proof
  assume "occurs_ignoring_case pat c"
  then obtain pre mid post where "c = pre @ mid @ post" and "toLowerCase mid = pat"
    by (auto simp: occurs_ignoring_case_def)
  then have "toLowerCase c = toLowerCase pre @ pat @ toLowerCase post"
    by (simp add: toLowerCase_def)
  then show "includes_str (toLowerCase c) pat"
    unfolding includes_str_sublist sublist_def by blast
next
  assume "includes_str (toLowerCase c) pat"
  then obtain ps ss where "map toLowerCase_char c = ps @ pat @ ss"
    by (auto simp: includes_str_sublist sublist_def toLowerCase_def)
  then have "map toLowerCase_char (take (length pat) (drop (length ps) c)) = pat"
    by (simp add: take_map[symmetric] drop_map[symmetric])
  moreover have "c = take (length ps) c @ take (length pat) (drop (length ps) c) @
      drop (length pat) (drop (length ps) c)"
    by (simp only: append_take_drop_id)
  ultimately show "occurs_ignoring_case pat c"
    unfolding occurs_ignoring_case_def toLowerCase_def by blast
qed

section \<open>What the handlers do to the transcript\<close>

lemma keeps_chatD: "keeps_chat a \<Longrightarrow> chatMessages (fst (a s)) = chatMessages s"
  by (simp add: keeps_chat_def)

lemma keeps_chat_run: "list_all keeps_chat as \<Longrightarrow> keeps_chat (run_actions as)"
proof (induction as)
  case Nil
  then show ?case by (simp add: keeps_chat_def)
next
  case (Cons a as)
  then show ?case
    by (auto simp: keeps_chat_def split: prod.splits) (metis fst_conv)
qed

lemma keeps_chat_setters [simp]:
  "keeps_chat (setEmails a)" "keeps_chat (setSelectedEmail b)" "keeps_chat (setPrompts c)"
  "keeps_chat (setChatInput d)" "keeps_chat (setDrafts e)" "keeps_chat (setActiveTab f)"
  "keeps_chat (setLoading g)" "keeps_chat (setEditingPrompt h)" "keeps_chat (setStatus i)"
  "keeps_chat (console_error j)" "keeps_chat (unhandled k)"
  by (simp_all add: keeps_chat_def setter_defs)

lemma keeps_chat_await [simp]:
  "list_all keeps_chat (api_await c raw k) = list_all keeps_chat (k (snd (response_interceptor raw)))"
  by (auto simp: api_await_def keeps_chat_def console_error_def list_all_iff)

lemma keeps_chat_showStatus [simp]: "keeps_chat (showStatus m ty)"
  unfolding showStatus_def by (rule keeps_chat_run) (simp add: keeps_chat_def setStatus_def)

lemma keeps_chat_loadEmails [simp]: "keeps_chat (loadEmails r)"
  unfolding loadEmails_def by (rule keeps_chat_run) (simp split: sum.splits)

lemma keeps_chat_loadPrompts [simp]: "keeps_chat (loadPrompts r)"
  unfolding loadPrompts_def by (rule keeps_chat_run) (simp split: sum.splits)

lemma keeps_chat_loadDrafts [simp]: "keeps_chat (loadDrafts r)"
  unfolding loadDrafts_def by (rule keeps_chat_run) (simp split: sum.splits)

lemma keeps_chat_loadMockInbox [simp]: "keeps_chat (loadMockInbox r1 r2)"
  unfolding loadMockInbox_def by (rule keeps_chat_run) (simp split: sum.splits)

lemma keeps_chat_fetchNewEmails [simp]: "keeps_chat (fetchNewEmails r1 r2)"
  unfolding fetchNewEmails_def by (rule keeps_chat_run) (simp split: sum.splits)

lemma keeps_chat_processAllEmails [simp]: "keeps_chat (processAllEmails r1 r2)"
  unfolding processAllEmails_def by (rule keeps_chat_run) (simp split: sum.splits)

lemma keeps_chat_generateDraft [simp]: "keeps_chat (generateDraft em r1 r2)"
  unfolding generateDraft_def by (rule keeps_chat_run) (simp split: sum.splits)

lemma keeps_chat_onClick_deleteDraft [simp]: "keeps_chat (onClick_deleteDraft d r1 r2)"
  unfolding onClick_deleteDraft_def by (rule keeps_chat_run) (simp split: sum.splits)

lemma savePrompts_chat: "chatMessages (fst (savePrompts r s)) = chatMessages s"
  unfolding savePrompts_def
  by (rule keeps_chatD, rule keeps_chat_run) (simp split: sum.splits)

lemma begin_chat: "prefix (chatMessages s) (chatMessages (fst (handleChatSubmit_begin s)))"
  by (simp add: handleChatSubmit_begin_def setter_defs split: option.splits)

lemma begin_passes:
  assumes "selectedEmail s = Some em" and "trim (chatInput s) \<noteq> []"
  shows "handleChatSubmit_begin s =
           (s\<lparr>chatMessages := chatMessages s @ [\<lparr>role = ''user'', content = chatInput s\<rparr>],
              chatInput := [], loading := True\<rparr>,
            [Request (ChatWithAgent em (chatInput s) (flatten_history (chatMessages s)))])"
  using assms by (simp add: handleChatSubmit_begin_def setter_defs)

lemma settle_state:
  "fst (handleChatSubmit_settle r s) =
     s\<lparr>chatMessages := chatMessages s @ [reply_turn r], loading := False\<rparr>"
  by (cases r)
     (simp_all add: handleChatSubmit_settle_def run_actions_append run_actions_console
        interceptor_defs reply_turn_def setter_defs)

lemma settle_effects:
  "snd (handleChatSubmit_settle r s) =
     map ConsoleError (fst (response_interceptor r)) @
     (case r of Inr text \<Rightarrow> [] | Inl error \<Rightarrow> [ConsoleError ''Chat error:''])"
  by (cases r)
     (simp_all add: handleChatSubmit_settle_def run_actions_append run_actions_console
        interceptor_defs setter_defs)

lemma handleChatSubmit_fst:
  assumes "selectedEmail s = Some em" and "trim (chatInput s) \<noteq> []"
  shows "fst (handleChatSubmit r s) =
           fst (handleChatSubmit_settle r (fst (handleChatSubmit_begin s)))"
  using assms by (simp add: handleChatSubmit_def split: prod.splits)

text \<open>A click on an email empties the transcript, whatever was selected before.\<close>

lemma onClick_email_resets:
  "step (ClickEmail em) s = (s\<lparr>selectedEmail := Some em, chatMessages := []\<rparr>, [])"
  by (simp add: onClick_email_def setter_defs)

text \<open>Every event but a selection only adds to the transcript.\<close>

lemma step_chat:
  "\<not> is_selection ev \<Longrightarrow> prefix (chatMessages s) (chatMessages (fst (step ev s)))"
proof (cases ev)
  case (Mount rp re rd)
  have "keeps_chat (run_actions [loadPrompts rp, loadEmails re, loadDrafts rd])"
    by (rule keeps_chat_run) simp
  with Mount show ?thesis by (simp add: keeps_chat_def)
qed (simp_all add: button_def keeps_chatD savePrompts_chat begin_chat settle_state
       split: option.splits)

lemma run_Cons_fst: "fst (run (ev # evs) s) = fst (run evs (fst (step ev s)))"
  by (simp split: prod.splits)

lemma run_single_fst: "fst (run [ev] s) = fst (step ev s)"
  by (simp split: prod.splits)

lemma run_append: "fst (run (xs @ ys) s) = fst (run ys (fst (run xs s)))"
  by (induction xs arbitrary: s) (simp_all add: run_Cons_fst del: run.simps, simp)

lemma run_chat:
  "\<forall>ev \<in> set evs. \<not> is_selection ev \<Longrightarrow>
     prefix (chatMessages s) (chatMessages (fst (run evs s)))"
proof (induction evs arbitrary: s)
  case Nil
  show ?case by simp
next
  case (Cons ev evs)
  have "prefix (chatMessages s) (chatMessages (fst (step ev s)))"
    using Cons.prems by (simp add: step_chat)
  moreover have "prefix (chatMessages (fst (step ev s)))
      (chatMessages (fst (run evs (fst (step ev s)))))"
    using Cons.prems by (intro Cons.IH) simp
  ultimately show ?case
    unfolding run_Cons_fst by (rule prefix_order.trans)
qed

section \<open>What the handlers do to the drafts\<close>

lemma keeps_draftsD: "keeps_drafts a \<Longrightarrow> drafts (fst (a s)) = drafts s"
  by (simp add: keeps_drafts_def)

lemma keeps_drafts_run: "list_all keeps_drafts as \<Longrightarrow> keeps_drafts (run_actions as)"
proof (induction as)
  case Nil
  then show ?case by (simp add: keeps_drafts_def)
next
  case (Cons a as)
  then show ?case
    by (auto simp: keeps_drafts_def split: prod.splits) (metis fst_conv)
qed

lemma keeps_drafts_setters [simp]:
  "keeps_drafts (setEmails a)" "keeps_drafts (setSelectedEmail b)" "keeps_drafts (setPrompts c)"
  "keeps_drafts (setChatInput d)" "keeps_drafts (setChatMessages e)" "keeps_drafts (setActiveTab f)"
  "keeps_drafts (setLoading g)" "keeps_drafts (setEditingPrompt h)" "keeps_drafts (setStatus i)"
  "keeps_drafts (console_error j)" "keeps_drafts (unhandled k)" "keeps_drafts (setChatMessages_prev l)"
  by (simp_all add: keeps_drafts_def setter_defs)

lemma keeps_drafts_await [simp]:
  "list_all keeps_drafts (api_await c raw k) = list_all keeps_drafts (k (snd (response_interceptor raw)))"
  by (auto simp: api_await_def keeps_drafts_def console_error_def list_all_iff)

lemma keeps_drafts_showStatus [simp]: "keeps_drafts (showStatus m ty)"
  unfolding showStatus_def by (rule keeps_drafts_run) (simp add: keeps_drafts_def setStatus_def)

lemma keeps_drafts_loadEmails [simp]: "keeps_drafts (loadEmails r)"
  unfolding loadEmails_def by (rule keeps_drafts_run) (simp split: sum.splits)

lemma keeps_drafts_loadPrompts [simp]: "keeps_drafts (loadPrompts r)"
  unfolding loadPrompts_def by (rule keeps_drafts_run) (simp split: sum.splits)

lemma keeps_drafts_loadMockInbox [simp]: "keeps_drafts (loadMockInbox r1 r2)"
  unfolding loadMockInbox_def by (rule keeps_drafts_run) (simp split: sum.splits)

lemma keeps_drafts_fetchNewEmails [simp]: "keeps_drafts (fetchNewEmails r1 r2)"
  unfolding fetchNewEmails_def by (rule keeps_drafts_run) (simp split: sum.splits)

lemma keeps_drafts_processAllEmails [simp]: "keeps_drafts (processAllEmails r1 r2)"
  unfolding processAllEmails_def by (rule keeps_drafts_run) (simp split: sum.splits)

lemma savePrompts_drafts: "drafts (fst (savePrompts r s)) = drafts s"
  unfolding savePrompts_def
  by (rule keeps_draftsD, rule keeps_drafts_run) (simp split: sum.splits)

lemma begin_drafts: "drafts (fst (handleChatSubmit_begin s)) = drafts s"
  by (simp add: handleChatSubmit_begin_def setter_defs split: option.splits)

lemma loadDrafts_drafts:
  "drafts (fst (loadDrafts r s)) = (case r of Inr ds \<Rightarrow> ds | Inl error \<Rightarrow> drafts s)"
  by (cases r)
     (simp_all add: loadDrafts_def api_await_def interceptor_defs setter_defs run_fst
        del: run_actions.simps)

lemma loadDrafts_fst_Inl: "keeps_drafts (loadDrafts (Inl error))"
  by (simp add: keeps_drafts_def loadDrafts_drafts)

lemma generateDraft_drafts:
  "drafts (fst (generateDraft em r1 r2 s)) =
     (case r1 of Inl error \<Rightarrow> drafts s
      | Inr u \<Rightarrow> (case r2 of Inr ds \<Rightarrow> ds | Inl error \<Rightarrow> drafts s))"
  by (cases r1; cases r2)
     (simp_all add: generateDraft_def api_await_def interceptor_defs setter_defs run_fst
        showStatus_eq loadDrafts_drafts del: run_actions.simps)

lemma deleteDraft_drafts:
  "drafts (fst (onClick_deleteDraft d r1 r2 s)) =
     (case r2 of Inr ds \<Rightarrow> ds | Inl error \<Rightarrow> drafts s)"
  by (cases r1; cases r2)
     (simp_all add: onClick_deleteDraft_def api_await_def interceptor_defs setter_defs run_fst
        loadDrafts_drafts del: run_actions.simps)

lemma mount_drafts:
  "drafts (fst (run_actions [loadPrompts rp, loadEmails re, loadDrafts rd] s)) =
     (case rd of Inr ds \<Rightarrow> ds | Inl error \<Rightarrow> drafts s)"
  by (simp add: run_fst loadDrafts_drafts keeps_draftsD del: run_actions.simps split: sum.splits)

text \<open>The interface changes its list of drafts only to a list the backend has returned.\<close>

lemma step_drafts:
  "drafts (fst (step ev s)) = drafts s \<or> listed ev = Some (drafts (fst (step ev s)))"
proof (cases ev)
  case (Mount rp re rd)
  then show ?thesis
    by (cases rd) (simp_all add: mount_drafts del: run_actions.simps)
next
  case (ClickGenerateDraft r1 r2)
  then show ?thesis
    by (cases r1; cases r2) (simp_all add: button_def generateDraft_drafts split: option.splits)
next
  case (ClickDeleteDraft d r1 r2)
  then show ?thesis
    by (cases r2) (simp_all add: deleteDraft_drafts)
next
  case (ChatSettled r)
  then show ?thesis by (simp add: settle_state)
qed (simp_all add: button_def keeps_draftsD savePrompts_drafts begin_drafts onClick_email_def
      setter_defs run_fst del: run_actions.simps)

section \<open>The other handlers\<close>

lemma loadEmails_status: "status (fst (loadEmails r s)) = status s"
  by (cases r)
     (simp_all add: loadEmails_def api_await_def interceptor_defs setter_defs run_fst
        del: run_actions.simps)

lemma processAllEmails_ok:
  "status (fst (processAllEmails (Inr d) r2 s)) =
     \<lparr>status_message = check_mark @ '' Processed '' @ show_nat (processed d) @ ''/'' @
                        show_nat (total d) @ '' emails successfully!'',
      status_type = ''success''\<rparr>"
  by (simp add: processAllEmails_def api_await_def interceptor_defs showStatus_eq setter_defs
        loadEmails_status run_fst del: run_actions.simps)

lemma savePrompts_requests: "requests (snd (savePrompts raw s)) = [UpdatePrompts (prompts s)]"
  by (cases raw)
     (simp_all add: savePrompts_def api_await_def interceptor_defs showStatus_eq setter_defs
        run_fst run_snd run_actions_console requests_append requests_console
        del: run_actions.simps)

lemma perform_endpoint: "is_client_endpoint (perform e c)"
  by (cases c) (simp_all add: is_client_endpoint_def api_defs)

section \<open>The pipeline and the prompt store\<close>

lemma pipeline_counts:
  "attempted (snd (runAnnotationPipeline annotate ems)) = length ems \<and>
   succeeded (snd (runAnnotationPipeline annotate ems)) =
     length (filter (\<lambda>em. \<not> isl (annotate em)) ems)"
  by (induction ems) (auto split: prod.splits sum.splits)

text \<open>After the merge a key has the value supplied last for it, or else the one it had.\<close>

lemma merge_map_of:
  "map_of (merge_prompts partial current) k =
     (case map_of (rev partial) k of Some v \<Rightarrow> Some v | None \<Rightarrow> map_of current k)"
proof (induction partial arbitrary: current)
  case Nil
  show ?case by (simp add: merge_prompts_def)
next
  case (Cons kv partial)
  have "merge_prompts (kv # partial) current =
      merge_prompts partial (AList.update (fst kv) (snd kv) current)"
    by (simp add: merge_prompts_def)
  then show ?case
    by (cases kv) (auto simp: Cons.IH update_conv' map_add_def split: option.splits)
qed

lemma map_of_rev_None: "k \<notin> fst ` set partial \<Longrightarrow> map_of (rev partial) k = None"
  by (simp add: map_of_eq_None_iff)

section \<open>Verified properties\<close>

text \<open>
  C1: no operation of the client transmits an email. Every call of the API module goes to
  one of the ten endpoints of \<open>is_client_endpoint\<close>, none of which sends anything; a request
  that addresses drafts (its path starts with \<open>/draft\<close>) is the generation of a draft from
  an email, the listing of the drafts or the deletion of one draft, and only the generation
  has a body, the email to answer. Along every sequence of events, from every state, the
  interface makes no other request, and an event leaves the list of drafts it holds as it
  is or replaces it by the list it has received from \<open>GET /drafts\<close>: a draft is shown
  and deleted, never edited or sent.
\<close>

theorem no_send_operation:
  "is_client_endpoint (perform e c)
   \<and> (prefix ''/draft'' (req_url (perform e c)) \<longrightarrow>
        (\<exists>em. c = GenerateDraft em \<and> req_method (perform e c) = POST
              \<and> req_url (perform e c) = ''/draft/generate''
              \<and> req_data (perform e c) = DraftData em)
        \<or> (c = GetDrafts \<and> req_method (perform e c) = GET
            \<and> req_url (perform e c) = ''/drafts'' \<and> req_data (perform e c) = NoData)
        \<or> (\<exists>draftId. c = DeleteDraft draftId \<and> req_method (perform e c) = DELETE
              \<and> req_url (perform e c) = ''/drafts/'' @ draftId
              \<and> req_data (perform e c) = NoData))
   \<and> (\<forall>c' \<in> set (requests (snd (run evs s))). is_client_endpoint (perform e c'))
   \<and> (drafts (fst (step ev s)) = drafts s \<or> listed ev = Some (drafts (fst (step ev s))))"
proof (intro conjI)
  show "drafts (fst (step ev s)) = drafts s \<or> listed ev = Some (drafts (fst (step ev s)))"
    by (rule step_drafts)
  show "is_client_endpoint (perform e c)"
    by (rule perform_endpoint)
  show "\<forall>c' \<in> set (requests (snd (run evs s))). is_client_endpoint (perform e c')"
    by (simp add: perform_endpoint)
  show "prefix ''/draft'' (req_url (perform e c)) \<longrightarrow>
        (\<exists>em. c = GenerateDraft em \<and> req_method (perform e c) = POST
              \<and> req_url (perform e c) = ''/draft/generate''
              \<and> req_data (perform e c) = DraftData em)
        \<or> (c = GetDrafts \<and> req_method (perform e c) = GET
            \<and> req_url (perform e c) = ''/drafts'' \<and> req_data (perform e c) = NoData)
        \<or> (\<exists>draftId. c = DeleteDraft draftId \<and> req_method (perform e c) = DELETE
              \<and> req_url (perform e c) = ''/drafts/'' @ draftId
              \<and> req_data (perform e c) = NoData)"
    by (cases c) (simp_all add: api_defs)
qed

theorem no_send_operation_witness:
  "prefix ''/draft'' (req_url (perform demo_env (DeleteDraft ''7'')))
   \<and> req_method (perform demo_env (DeleteDraft ''7'')) = DELETE
   \<and> req_url (perform demo_env (DeleteDraft ''7'')) = ''/drafts/7''
   \<and> GenerateDraft demo_email \<in>
       set (requests (snd (run [ClickGenerateDraft (Inr ()) (Inr [])] demo_state)))
   \<and> is_client_endpoint (perform demo_env (GenerateDraft demo_email))
   \<and> listed (ClickGenerateDraft (Inr ()) (Inr [])) = Some []
   \<and> drafts (fst (step (ClickGenerateDraft (Inr ()) (Inr [])) demo_state)) = []"
proof -
  have h1: "prefix ''/draft'' (req_url (perform demo_env (DeleteDraft ''7'')))"
    by (simp add: deleteDraft_def axios_request_def)
  have h2: "GenerateDraft demo_email \<in>
       set (requests (snd (run [ClickGenerateDraft (Inr ()) (Inr [])] demo_state)))"
    by code_simp
  have h3: "drafts (fst (step (ClickGenerateDraft (Inr ()) (Inr [])) demo_state)) = []"
    by code_simp
  from no_send_operation[of demo_env "DeleteDraft ''7''"
      "[ClickGenerateDraft (Inr ()) (Inr [])]" demo_state
      "ClickGenerateDraft (Inr ()) (Inr [])"] h1 h2 h3
  show ?thesis
    by auto
qed

text \<open>
  C2: a chat submission with an email selected and an input that is not blank makes exactly
  one request, \<open>POST /chat\<close>. Its history is the transcript as it was before the submission,
  one line \<open>role: content\<close> per turn, joined by newlines; its query is the input, as typed,
  in a field of its own. The user's new turn goes into the transcript but not into the
  history: the history of the transcript with that turn is a different string. The Enter
  key and, unless the loading flag is set, the Send button are the two ways to submit.
\<close>

theorem chat_request_carries_history:
  assumes "selectedEmail s = Some em" and "trim (chatInput s) \<noteq> []"
  shows "snd (handleChatSubmit_begin s) =
           [Request (ChatWithAgent em (chatInput s)
              (join [CHR 0x0A] (map (\<lambda>m. role m @ '': '' @ content m) (chatMessages s))))]
         \<and> perform e (ChatWithAgent em (chatInput s) h) =
             axios_request (api e) POST ''/chat'' (ChatData em (chatInput s) h)
         \<and> chatMessages (fst (handleChatSubmit_begin s)) =
             chatMessages s @ [\<lparr>role = ''user'', content = chatInput s\<rparr>]
         \<and> flatten_history (chatMessages s) \<noteq>
             flatten_history (chatMessages s @ [\<lparr>role = ''user'', content = chatInput s\<rparr>])
         \<and> step (KeyPressChatInput ''Enter'' False) s = handleChatSubmit_begin s
         \<and> (\<not> loading s \<longrightarrow> step ClickSend s = handleChatSubmit_begin s)"
proof -
  have line: "history_line = (\<lambda>m. role m @ '': '' @ content m)"
    by (rule ext) (simp add: history_line_def)
  have "history_line \<lparr>role = ''user'', content = chatInput s\<rparr> \<noteq> []"
    by (simp add: history_line_def)
  then have "flatten_history (chatMessages s @ [\<lparr>role = ''user'', content = chatInput s\<rparr>])
      \<noteq> flatten_history (chatMessages s)"
    by (simp add: flatten_history_def join_snoc_neq)
  then show ?thesis
    using begin_passes[OF assms] assms
    by (simp add: flatten_history_def line chatWithAgent_def button_def send_disabled_def)
qed

theorem chat_request_carries_history_witness:
  "selectedEmail demo_state = Some demo_email
   \<and> trim (chatInput demo_state) \<noteq> []
   \<and> snd (handleChatSubmit_begin demo_state) =
       [Request (ChatWithAgent demo_email ''Summarize''
          (''user: hi'' @ [CHR 0x0A] @ ''assistant: hello''))]"
proof -
  have h1: "selectedEmail demo_state = Some demo_email"
    by (simp add: demo_state_def)
  have h2: "trim (chatInput demo_state) \<noteq> []"
    by code_simp
  from chat_request_carries_history[OF h1 h2, of demo_env "[]"]
  have "snd (handleChatSubmit_begin demo_state) =
      [Request (ChatWithAgent demo_email (chatInput demo_state)
         (join [CHR 0x0A] (map (\<lambda>m. role m @ '': '' @ content m) (chatMessages demo_state))))]"
    by blast
  then show ?thesis
    using h1 h2 by (simp add: demo_state_def)
qed

text \<open>
  C3: when the chat request is rejected, by a timeout or otherwise, the handler appends an
  assistant turn with the one fixed text to the transcript it finds, removes no turn and
  clears the loading flag. All it does besides is write to the console (the interceptor's
  lines and \<open>Chat error:\<close>): no rejection leaves the handler. The user's own turn is still
  in the transcript then, provided that no email has been selected between the submission
  and the rejection: the transcript is the one before the submission, the user's turn,
  what other events have appended meanwhile, and the fixed turn. A selection in between
  empties the transcript, and the user's turn with it.
\<close>

theorem chat_failure_fallback_unless_reselected:
  "fst (handleChatSubmit_settle (Inl error) s') =
     s'\<lparr>chatMessages := chatMessages s' @
          [\<lparr>role = ''assistant'',
            content = ''Sorry, I encountered an error processing your request.''\<rparr>],
       loading := False\<rparr>
   \<and> snd (handleChatSubmit_settle (Inl error) s') =
       map ConsoleError (fst (response_interceptor (Inl error :: string settled))) @
       [ConsoleError ''Chat error:'']
   \<and> (selectedEmail s = Some em \<and> trim (chatInput s) \<noteq> []
        \<and> (sub = KeyPressChatInput ''Enter'' False \<or> sub = ClickSend \<and> \<not> loading s)
        \<and> (\<forall>ev \<in> set mid. \<not> is_selection ev) \<longrightarrow>
        (\<exists>ts. chatMessages (fst (run (sub # mid @ [ChatSettled (Inl error)]) s)) =
           chatMessages s @ [\<lparr>role = ''user'', content = chatInput s\<rparr>] @ ts @
           [\<lparr>role = ''assistant'',
             content = ''Sorry, I encountered an error processing your request.''\<rparr>]))"
proof (intro conjI impI)
  show "fst (handleChatSubmit_settle (Inl error) s') =
     s'\<lparr>chatMessages := chatMessages s' @
          [\<lparr>role = ''assistant'',
            content = ''Sorry, I encountered an error processing your request.''\<rparr>],
       loading := False\<rparr>"
    by (simp add: settle_state reply_turn_def)
  show "snd (handleChatSubmit_settle (Inl error) s') =
       map ConsoleError (fst (response_interceptor (Inl error :: string settled))) @
       [ConsoleError ''Chat error:'']"
    by (simp add: settle_effects)
next
  assume h: "selectedEmail s = Some em \<and> trim (chatInput s) \<noteq> []
        \<and> (sub = KeyPressChatInput ''Enter'' False \<or> sub = ClickSend \<and> \<not> loading s)
        \<and> (\<forall>ev \<in> set mid. \<not> is_selection ev)"
  define s1 where "s1 = fst (handleChatSubmit_begin s)"
  from h have sub: "step sub s = handleChatSubmit_begin s"
    by (auto simp: button_def send_disabled_def)
  from h have s1: "chatMessages s1 = chatMessages s @ [\<lparr>role = ''user'', content = chatInput s\<rparr>]"
    by (simp add: s1_def begin_passes)
  from h have "prefix (chatMessages s1) (chatMessages (fst (run mid s1)))"
    by (intro run_chat) simp
  then obtain ts where ts: "chatMessages (fst (run mid s1)) = chatMessages s1 @ ts"
    by (auto simp: prefix_def)
  have "fst (run (sub # mid @ [ChatSettled (Inl error)]) s) =
      fst (handleChatSubmit_settle (Inl error) (fst (run mid s1)))"
    by (simp add: run_Cons_fst run_append run_single_fst sub s1_def del: run.simps(2))
  then have "chatMessages (fst (run (sub # mid @ [ChatSettled (Inl error)]) s)) =
      chatMessages s @ [\<lparr>role = ''user'', content = chatInput s\<rparr>] @ ts @
      [\<lparr>role = ''assistant'',
        content = ''Sorry, I encountered an error processing your request.''\<rparr>]"
    by (simp add: settle_state reply_turn_def ts s1)
  then show "\<exists>ts. chatMessages (fst (run (sub # mid @ [ChatSettled (Inl error)]) s)) =
           chatMessages s @ [\<lparr>role = ''user'', content = chatInput s\<rparr>] @ ts @
           [\<lparr>role = ''assistant'',
             content = ''Sorry, I encountered an error processing your request.''\<rparr>]"
    by blast
qed

theorem chat_failure_fallback_unless_reselected_witness:
  "selectedEmail demo_state = Some demo_email
   \<and> trim (chatInput demo_state) \<noteq> []
   \<and> \<not> is_selection (ClickTab ''inbox'')
   \<and> \<not> is_selection (ChangeChatInput ''Thanks'')
   \<and> (\<exists>ts. chatMessages (fst (run (KeyPressChatInput ''Enter'' False #
          [ClickTab ''inbox'', ChangeChatInput ''Thanks''] @
          [ChatSettled (Inl demo_timeout)]) demo_state)) =
        chatMessages demo_state @ [\<lparr>role = ''user'', content = chatInput demo_state\<rparr>] @ ts @
        [\<lparr>role = ''assistant'',
          content = ''Sorry, I encountered an error processing your request.''\<rparr>])
   \<and> chatMessages (fst (run (KeyPressChatInput ''Enter'' False #
          [ClickTab ''inbox'', ChangeChatInput ''Thanks''] @
          [ChatSettled (Inl demo_timeout)]) demo_state)) =
       [\<lparr>role = ''user'', content = ''hi''\<rparr>,
        \<lparr>role = ''assistant'', content = ''hello''\<rparr>,
        \<lparr>role = ''user'', content = ''Summarize''\<rparr>,
        \<lparr>role = ''assistant'',
          content = ''Sorry, I encountered an error processing your request.''\<rparr>]
   \<and> snd (handleChatSubmit_settle (Inl demo_timeout) demo_state) =
       [ConsoleError ''API Error:'',
        ConsoleError ''Request timeout - backend may be processing'',
        ConsoleError ''Chat error:'']"
proof -
  have h1: "selectedEmail demo_state = Some demo_email"
    by (simp add: demo_state_def)
  have h2: "trim (chatInput demo_state) \<noteq> []"
    by code_simp
  have h3: "\<forall>ev \<in> set [ClickTab ''inbox'', ChangeChatInput ''Thanks'']. \<not> is_selection ev"
    by simp
  have v: "chatMessages (fst (run (KeyPressChatInput ''Enter'' False #
          [ClickTab ''inbox'', ChangeChatInput ''Thanks''] @
          [ChatSettled (Inl demo_timeout)]) demo_state)) =
       [\<lparr>role = ''user'', content = ''hi''\<rparr>,
        \<lparr>role = ''assistant'', content = ''hello''\<rparr>,
        \<lparr>role = ''user'', content = ''Summarize''\<rparr>,
        \<lparr>role = ''assistant'',
          content = ''Sorry, I encountered an error processing your request.''\<rparr>]"
    by code_simp
  note t = chat_failure_fallback_unless_reselected[of demo_timeout demo_state demo_state
      demo_email "KeyPressChatInput ''Enter'' False"
      "[ClickTab ''inbox'', ChangeChatInput ''Thanks'']"]
  from t h1 h2 h3
  have a: "\<exists>ts. chatMessages (fst (run (KeyPressChatInput ''Enter'' False #
          [ClickTab ''inbox'', ChangeChatInput ''Thanks''] @
          [ChatSettled (Inl demo_timeout)]) demo_state)) =
        chatMessages demo_state @ [\<lparr>role = ''user'', content = chatInput demo_state\<rparr>] @ ts @
        [\<lparr>role = ''assistant'',
          content = ''Sorry, I encountered an error processing your request.''\<rparr>]"
    by blast
  from t
  have "snd (handleChatSubmit_settle (Inl demo_timeout) demo_state) =
       map ConsoleError (fst (response_interceptor (Inl demo_timeout :: string settled))) @
       [ConsoleError ''Chat error:'']"
    by blast
  then have b: "snd (handleChatSubmit_settle (Inl demo_timeout) demo_state) =
       [ConsoleError ''API Error:'',
        ConsoleError ''Request timeout - backend may be processing'',
        ConsoleError ''Chat error:'']"
    by (simp add: demo_timeout_def response_interceptor_def interceptor_rejected_def)
  show ?thesis
    using h1 h2 a v b by simp
qed

text \<open>
  With a selection in between it is otherwise. In \<open>reselect_in_flight\<close> the one request made
  is the one for the first email; it times out after the second email has been clicked, and
  the transcript is then the fixed turn alone.
\<close>

theorem chat_failure_fallback_counterexample:
  "selectedEmail demo_state = Some demo_email
   \<and> trim (chatInput demo_state) \<noteq> []
   \<and> requests (snd (run (reselect_in_flight (Inl demo_timeout)) demo_state)) =
       [ChatWithAgent demo_email ''Summarize''
          (''user: hi'' @ [CHR 0x0A] @ ''assistant: hello'')]
   \<and> chatMessages (fst (run (reselect_in_flight (Inl demo_timeout)) demo_state)) =
       [\<lparr>role = ''assistant'',
         content = ''Sorry, I encountered an error processing your request.''\<rparr>]
   \<and> \<lparr>role = ''user'', content = ''Summarize''\<rparr> \<notin>
       set (chatMessages (fst (run (reselect_in_flight (Inl demo_timeout)) demo_state)))"
  by code_simp

text \<open>
  C4: for an email whose category is a non-empty string the inbox row shows a badge whose
  text is that string, unchanged, whatever it is. The colour of the badge is that of the
  bucket the specification describes: case-insensitive substring tests in the order
  important, to-do or todo, newsletter, spam, and the neutral bucket when none applies.
\<close>

theorem category_badge_buckets:
  assumes "category em = Some c" and "c \<noteq> []"
  shows "category_badge em =
           Some \<lparr>className = ''px-2 py-1 rounded text-xs whitespace-nowrap ml-2 '' @
                               bucket_colour (bucket_of c),
                 badge_text = c\<rparr>"
  using assms
  by (simp add: category_badge_def badge_colour_def bucket_of_def occurs_ignoring_case_iff)

theorem category_badge_buckets_witness:
  "category demo_email = Some ''My To-Do''
   \<and> ''My To-Do'' \<noteq> []
   \<and> category_badge demo_email =
       Some \<lparr>className =
               ''px-2 py-1 rounded text-xs whitespace-nowrap ml-2 bg-yellow-100 text-yellow-800'',
             badge_text = ''My To-Do''\<rparr>"
proof -
  have h1: "category demo_email = Some ''My To-Do''"
    by (simp add: demo_email_def)
  have h2: "''My To-Do'' \<noteq> []"
    by simp
  have b: "bucket_of ''My To-Do'' = ToDo"
    unfolding bucket_of_def occurs_ignoring_case_iff by code_simp
  from category_badge_buckets[OF h1 h2] b h1 show ?thesis
    by simp
qed

text \<open>
  C5: a run of the annotation pipeline yields a summary with the number of emails attempted
  (all of them) and the number that succeeded (those for which no Gateway call failed).
  When that summary reaches the frontend as the response to \<open>POST /emails/process\<close>, the
  status shown is of type \<open>success\<close> and reads \<open>Processed\<close>, the number that succeeded,
  a slash, the number attempted, \<open>emails successfully!\<close>; this also when fewer succeeded
  than were attempted.
\<close>

theorem pipeline_summary_reported:
  "attempted (snd (runAnnotationPipeline annotate ems)) = length ems
   \<and> succeeded (snd (runAnnotationPipeline annotate ems)) =
       length (filter (\<lambda>em. \<not> isl (annotate em)) ems)
   \<and> status (fst (processAllEmails
        (Inr (summary_response (snd (runAnnotationPipeline annotate ems)))) r2 s)) =
       \<lparr>status_message =
          check_mark @ '' Processed '' @
          show_nat (succeeded (snd (runAnnotationPipeline annotate ems))) @ ''/'' @
          show_nat (attempted (snd (runAnnotationPipeline annotate ems))) @
          '' emails successfully!'',
        status_type = ''success''\<rparr>"
  using pipeline_counts[of annotate ems]
  by (simp add: processAllEmails_ok summary_response_def)

theorem pipeline_summary_reported_witness:
  "snd (runAnnotationPipeline demo_annotate [demo_email, other_email]) =
     \<lparr>attempted = 2, succeeded = 1\<rparr>
   \<and> status (fst (processAllEmails
        (Inr (summary_response (snd (runAnnotationPipeline demo_annotate
           [demo_email, other_email])))) (Inr []) demo_state)) =
       \<lparr>status_message = check_mark @ '' Processed 1/2 emails successfully!'',
        status_type = ''success''\<rparr>"
proof -
  have s: "snd (runAnnotationPipeline demo_annotate [demo_email, other_email]) =
     \<lparr>attempted = 2, succeeded = 1\<rparr>"
    by code_simp
  have d: "show_nat (Suc 0) = ''1''" "show_nat 2 = ''2''"
    by code_simp+
  from pipeline_summary_reported[of demo_annotate "[demo_email, other_email]" "Inr []" demo_state]
  have "status (fst (processAllEmails
        (Inr (summary_response (snd (runAnnotationPipeline demo_annotate
           [demo_email, other_email])))) (Inr []) demo_state)) =
       \<lparr>status_message =
          check_mark @ '' Processed '' @
          show_nat (succeeded (snd (runAnnotationPipeline demo_annotate
             [demo_email, other_email]))) @ ''/'' @
          show_nat (attempted (snd (runAnnotationPipeline demo_annotate
             [demo_email, other_email]))) @
          '' emails successfully!'',
        status_type = ''success''\<rparr>"
    by blast
  then show ?thesis
    unfolding s by (simp add: d)
qed

text \<open>
  C6: saving the prompts sends the frontend's whole prompts object with \<open>PUT /prompts\<close>.
  The store's update fails with \<open>ValidationError\<close> exactly when some supplied key is not one
  of the four recognized names or some supplied value is empty after trimming, and then the
  stored set is the one before. Otherwise the result is the new stored set, in which a key
  that was not supplied has the value it had and a supplied key has the value supplied for
  it (the last one, if supplied twice).
\<close>

theorem prompt_update_contract:
  "requests (snd (savePrompts raw s)) = [UpdatePrompts (prompts s)]
   \<and> perform e (UpdatePrompts ps) = axios_request (api e) PUT ''/prompts'' (PromptsData ps)
   \<and> (fst (store_update partial current) = Inl ValidationError \<longleftrightarrow>
        (\<exists>kv \<in> set partial. fst kv \<notin> set recognized_keys \<or> trim (snd kv) = []))
   \<and> (fst (store_update partial current) = Inl ValidationError \<longrightarrow>
        snd (store_update partial current) = current)
   \<and> (fst (store_update partial current) \<noteq> Inl ValidationError \<longrightarrow>
        fst (store_update partial current) = Inr (snd (store_update partial current))
        \<and> (\<forall>k. k \<notin> fst ` set partial \<longrightarrow>
              map_of (snd (store_update partial current)) k = map_of current k)
        \<and> (\<forall>k v. map_of (rev partial) k = Some v \<longrightarrow>
              map_of (snd (store_update partial current)) k = Some v))"
  by (auto simp: savePrompts_requests updatePrompts_def store_update_def valid_entry_def
      list_all_iff merge_map_of map_of_rev_None)

theorem prompt_update_contract_witness:
  "fst (store_update [(''tone'', ''formal'')] demo_prompts) = Inl ValidationError
   \<and> snd (store_update [(''tone'', ''formal'')] demo_prompts) = demo_prompts
   \<and> fst (store_update [(''chat'', ''  '')] demo_prompts) = Inl ValidationError
   \<and> fst (store_update [(''chat'', ''Be brief'')] demo_prompts) \<noteq> Inl ValidationError
   \<and> map_of (snd (store_update [(''chat'', ''Be brief'')] demo_prompts)) ''chat'' =
       Some ''Be brief''
   \<and> map_of (snd (store_update [(''chat'', ''Be brief'')] demo_prompts)) ''draftReply'' =
       Some ''Draft a polite reply''"
proof -
  have bad1: "\<exists>kv \<in> set [(''tone'', ''formal'')]. fst kv \<notin> set recognized_keys \<or> trim (snd kv) = []"
    by (simp add: recognized_keys_def)
  have "trim ''  '' = []"
    by code_simp
  then have bad2: "\<exists>kv \<in> set [(''chat'', ''  '')]. fst kv \<notin> set recognized_keys \<or> trim (snd kv) = []"
    by simp
  have "trim ''Be brief'' \<noteq> []"
    by code_simp
  then have good: "\<not> (\<exists>kv \<in> set [(''chat'', ''Be brief'')].
      fst kv \<notin> set recognized_keys \<or> trim (snd kv) = [])"
    by (simp add: recognized_keys_def)
  have k1: "map_of (rev [(''chat'', ''Be brief'')]) ''chat'' = Some ''Be brief''"
    by simp
  have k2: "''draftReply'' \<notin> fst ` set [(''chat'', ''Be brief'')]"
    by simp
  from prompt_update_contract[where partial = "[(''tone'', ''formal'')]" and current = demo_prompts]
    bad1
  have a: "fst (store_update [(''tone'', ''formal'')] demo_prompts) = Inl ValidationError"
    "snd (store_update [(''tone'', ''formal'')] demo_prompts) = demo_prompts"
    by blast+
  from prompt_update_contract[where partial = "[(''chat'', ''  '')]" and current = demo_prompts]
    bad2
  have b: "fst (store_update [(''chat'', ''  '')] demo_prompts) = Inl ValidationError"
    by blast
  from prompt_update_contract[where partial = "[(''chat'', ''Be brief'')]" and current = demo_prompts]
    good
  have c: "fst (store_update [(''chat'', ''Be brief'')] demo_prompts) \<noteq> Inl ValidationError"
    by blast
  with prompt_update_contract[where partial = "[(''chat'', ''Be brief'')]" and current = demo_prompts]
    k1 k2
  have d: "map_of (snd (store_update [(''chat'', ''Be brief'')] demo_prompts)) ''chat'' =
       Some ''Be brief''"
    "map_of (snd (store_update [(''chat'', ''Be brief'')] demo_prompts)) ''draftReply'' =
       map_of demo_prompts ''draftReply''"
    by blast+
  show ?thesis
    using a b c d by (simp add: demo_prompts_def)
qed

text \<open>
  C7: every request of the API client carries the timeout of the instance, 60000 ms, which
  is 60 seconds. A rejection, a timeout too, comes out of the response interceptor as a
  rejection with the same error, so it reaches the caller as an ordinary rejected promise;
  a timeout is told apart by its code \<open>ECONNABORTED\<close> and gets a console line that no other
  error gets.
\<close>

theorem requests_carry_timeout:
  "req_timeout (perform e c) = 60000
   \<and> (60000 :: nat) = 60 * 1000
   \<and> snd (response_interceptor (Inl error :: 'a settled)) = Inl error
   \<and> (''Request timeout - backend may be processing''
         \<in> set (fst (response_interceptor (Inl error :: 'a settled))) \<longleftrightarrow>
       error_code error = Some ''ECONNABORTED'')"
  by (cases c) (simp_all add: api_defs api_def interceptor_defs)

theorem requests_carry_timeout_witness:
  "req_timeout (perform demo_env (ChatWithAgent demo_email ''Summarize'' [])) = 60000
   \<and> error_code demo_timeout = Some ''ECONNABORTED''
   \<and> ''Request timeout - backend may be processing''
        \<in> set (fst (response_interceptor (Inl demo_timeout :: string settled)))
   \<and> snd (response_interceptor (Inl demo_timeout :: string settled)) = Inl demo_timeout"
proof -
  have h: "error_code demo_timeout = Some ''ECONNABORTED''"
    by (simp add: demo_timeout_def)
  from requests_carry_timeout[of demo_env "ChatWithAgent demo_email ''Summarize'' []"
      demo_timeout, where ?'a = string] h
  show ?thesis
    by blast
qed

text \<open>
  C8: when the chat request succeeds, the handler appends one assistant turn whose content
  is the text of the response as it came, to the transcript it finds. The response passes
  the interceptor unchanged, and nothing trims or rewrites the text: the turn holds it
  whatever it is. With no other event in between, the transcript is the one before, the
  user's turn and that turn.
\<close>

theorem chat_reply_verbatim:
  "snd (response_interceptor (Inr text)) = Inr text
   \<and> fst (handleChatSubmit_settle (Inr text) s) =
       s\<lparr>chatMessages := chatMessages s @ [\<lparr>role = ''assistant'', content = text\<rparr>],
         loading := False\<rparr>
   \<and> (selectedEmail s = Some em \<and> trim (chatInput s) \<noteq> [] \<longrightarrow>
        chatMessages (fst (handleChatSubmit (Inr text) s)) =
          chatMessages s @
          [\<lparr>role = ''user'', content = chatInput s\<rparr>,
           \<lparr>role = ''assistant'', content = text\<rparr>])"
proof (intro conjI impI)
  show "snd (response_interceptor (Inr text)) = Inr text"
    by (simp add: interceptor_defs)
  show "fst (handleChatSubmit_settle (Inr text) s) =
     s\<lparr>chatMessages := chatMessages s @ [\<lparr>role = ''assistant'', content = text\<rparr>],
       loading := False\<rparr>"
    by (simp add: settle_state reply_turn_def)
next
  assume g: "selectedEmail s = Some em \<and> trim (chatInput s) \<noteq> []"
  then have "fst (handleChatSubmit (Inr text) s) =
          fst (handleChatSubmit_settle (Inr text) (fst (handleChatSubmit_begin s)))"
    by (simp add: handleChatSubmit_fst)
  with g show "chatMessages (fst (handleChatSubmit (Inr text) s)) =
          chatMessages s @
          [\<lparr>role = ''user'', content = chatInput s\<rparr>,
           \<lparr>role = ''assistant'', content = text\<rparr>]"
    by (simp add: settle_state reply_turn_def begin_passes)
qed

theorem chat_reply_verbatim_witness:
  "selectedEmail demo_state = Some demo_email
   \<and> trim (chatInput demo_state) \<noteq> []
   \<and> chatMessages (fst (handleChatSubmit (Inr '' It asks for a meeting. '') demo_state)) =
       [\<lparr>role = ''user'', content = ''hi''\<rparr>,
        \<lparr>role = ''assistant'', content = ''hello''\<rparr>,
        \<lparr>role = ''user'', content = ''Summarize''\<rparr>,
        \<lparr>role = ''assistant'', content = '' It asks for a meeting. ''\<rparr>]"
proof -
  have h1: "selectedEmail demo_state = Some demo_email"
    by (simp add: demo_state_def)
  have h2: "trim (chatInput demo_state) \<noteq> []"
    by code_simp
  from chat_reply_verbatim[of "'' It asks for a meeting. ''" demo_state demo_email] h1 h2
  have "chatMessages (fst (handleChatSubmit (Inr '' It asks for a meeting. '') demo_state)) =
          chatMessages demo_state @
          [\<lparr>role = ''user'', content = chatInput demo_state\<rparr>,
           \<lparr>role = ''assistant'', content = '' It asks for a meeting. ''\<rparr>]"
    by blast
  then show ?thesis
    using h1 h2 by (simp add: demo_state_def)
qed

text \<open>
  C9: a click on an email of the inbox list makes it the selected email and empties the
  transcript (\<open>onClick_email_resets\<close>). A chat request that is in flight at that moment is
  neither cancelled nor marked, and its reply is appended to whatever transcript there is
  when it settles. In \<open>reselect_in_flight\<close> the one request made is the question about the
  first email; its answer arrives after the second email has been clicked, and the
  transcript shown under the second email (the chat tab says it is about that email) then
  consists of that answer. The next question, about the second email, sends it on as the
  history.
\<close>

theorem stale_reply_lands_after_selection:
  "demo_email \<noteq> other_email
   \<and> requests (snd (run (reselect_in_flight (Inr ''It asks for a meeting on Thursday.''))
        demo_state)) =
       [ChatWithAgent demo_email ''Summarize''
          (''user: hi'' @ [CHR 0x0A] @ ''assistant: hello'')]
   \<and> selectedEmail (fst (run (reselect_in_flight (Inr ''It asks for a meeting on Thursday.''))
        demo_state)) = Some other_email
   \<and> chatMessages (fst (run (reselect_in_flight (Inr ''It asks for a meeting on Thursday.''))
        demo_state)) =
       [\<lparr>role = ''assistant'', content = ''It asks for a meeting on Thursday.''\<rparr>]
   \<and> requests (snd (run
        [ClickTab ''chat'', ChangeChatInput ''And this one?'', KeyPressChatInput ''Enter'' False]
        (fst (run (reselect_in_flight (Inr ''It asks for a meeting on Thursday.''))
           demo_state)))) =
       [ChatWithAgent other_email ''And this one?''
          ''assistant: It asks for a meeting on Thursday.'']"
  by code_simp

text \<open>
  C10: when the chat input is empty or only white space, or no email is selected, a
  submission returns at once: no request is made and the state is the same afterwards, be
  it through the handler, the Enter key or a click on Send. With a blank input the Send
  button is disabled as well.
\<close>

theorem blank_chat_submit_is_noop:
  assumes "trim (chatInput s) = [] \<or> selectedEmail s = None"
  shows "handleChatSubmit_begin s = (s, [])
         \<and> handleChatSubmit raw s = (s, [])
         \<and> step ClickSend s = (s, [])
         \<and> step (KeyPressChatInput key shiftKey) s = (s, [])
         \<and> (trim (chatInput s) = [] \<longrightarrow> send_disabled s)"
  using assms
  by (auto simp: handleChatSubmit_begin_def handleChatSubmit_def button_def send_disabled_def
      split: option.splits)

theorem blank_chat_submit_is_noop_witness:
  "trim (chatInput blank_state) = []
   \<and> step ClickSend blank_state = (blank_state, [])
   \<and> step (KeyPressChatInput ''Enter'' False) blank_state = (blank_state, [])
   \<and> send_disabled blank_state"
proof -
  have h: "trim (chatInput blank_state) = []"
    by code_simp
  then have "trim (chatInput blank_state) = [] \<or> selectedEmail blank_state = None"
    by simp
  from blank_chat_submit_is_noop[OF this, of "Inr []" "''Enter''" False] h
  show ?thesis
    by blast
qed

end
